theory Spec2Isabelle
  imports Complex_Main "HOL-Library.Word" "HOL-Library.Multiset"
begin

section \<open>Viewer.js: visibility culling and the asynchronous depth-sort scheduler\<close>

text \<open>
  Numbers of the source are IEEE doubles; they are read here as \<^typ>\<open>real\<close>, so
  rounding, infinities and NaN are outside the model. Counts and byte offsets are
  \<^typ>\<open>nat\<close>, splat indices are the elements of a \<^verbatim>\<open>Uint32Array\<close>.
\<close>

type_synonym uint32 = "32 word"

subsection \<open>three.js vectors, quaternions and matrices\<close>

text \<open>
  The functions of this subsection are the methods of the three.js library that
  \<^verbatim>\<open>gatherSceneNodes\<close> and \<^verbatim>\<open>updateView\<close> call on their scratch vectors.
\<close>

datatype vec3 = Vector3 (vx: real) (vy: real) (vz: real)

datatype quat = Quaternion (qx: real) (qy: real) (qz: real) (qw: real)

text \<open>The sixteen elements of a \<^verbatim>\<open>Matrix4\<close>, column-major.\<close>

type_synonym mat4 = "real list"

definition v_sub :: "vec3 \<Rightarrow> vec3 \<Rightarrow> vec3" where
  "v_sub a b = Vector3 (vx a - vx b) (vy a - vy b) (vz a - vz b)"

definition v_dot :: "vec3 \<Rightarrow> vec3 \<Rightarrow> real" where
  "v_dot a b = vx a * vx b + vy a * vy b + vz a * vz b"

definition v_length :: "vec3 \<Rightarrow> real" where
  "v_length a = sqrt (vx a * vx a + vy a * vy a + vz a * vz a)"

definition v_multiplyScalar :: "vec3 \<Rightarrow> real \<Rightarrow> vec3" where
  "v_multiplyScalar a k = Vector3 (vx a * k) (vy a * k) (vz a * k)"

definition v_divideScalar :: "vec3 \<Rightarrow> real \<Rightarrow> vec3" where
  "v_divideScalar a k = v_multiplyScalar a (1 / k)"

text \<open>\<^verbatim>\<open>normalize\<close> divides by \<^verbatim>\<open>this.length() || 1\<close>: a zero vector stays zero.\<close>

definition v_normalize :: "vec3 \<Rightarrow> vec3" where
  "v_normalize a = v_divideScalar a (if v_length a = 0 then 1 else v_length a)"

definition v_setX :: "vec3 \<Rightarrow> real \<Rightarrow> vec3" where
  "v_setX a k = Vector3 k (vy a) (vz a)"

definition v_setY :: "vec3 \<Rightarrow> real \<Rightarrow> vec3" where
  "v_setY a k = Vector3 (vx a) k (vz a)"

definition v_transformDirection :: "vec3 \<Rightarrow> mat4 \<Rightarrow> vec3" where
  "v_transformDirection a e =
     v_normalize (Vector3 (e ! 0 * vx a + e ! 4 * vy a + e ! 8 * vz a)
                          (e ! 1 * vx a + e ! 5 * vy a + e ! 9 * vz a)
                          (e ! 2 * vx a + e ! 6 * vy a + e ! 10 * vz a))"

definition v_applyQuaternion :: "vec3 \<Rightarrow> quat \<Rightarrow> vec3" where
  "v_applyQuaternion a q =
     (let ix = qw q * vx a + qy q * vz a - qz q * vy a;
          iy = qw q * vy a + qz q * vx a - qx q * vz a;
          iz = qw q * vz a + qx q * vy a - qy q * vx a;
          iw = - qx q * vx a - qy q * vy a - qz q * vz a
      in Vector3 (ix * qw q + iw * - qx q + iy * - qz q - iz * - qy q)
                 (iy * qw q + iw * - qy q + iz * - qx q - ix * - qz q)
                 (iz * qw q + iw * - qz q + ix * - qy q - iy * - qx q))"

text \<open>\<^verbatim>\<open>a.premultiply(b)\<close> stores the matrix product \<open>b \<times> a\<close>.\<close>

definition m_multiplyMatrices :: "mat4 \<Rightarrow> mat4 \<Rightarrow> mat4" where
  "m_multiplyMatrices a b =
     concat (map (\<lambda>j. map (\<lambda>i. a ! i * b ! (4 * j) + a ! (i + 4) * b ! (4 * j + 1)
                                + a ! (i + 8) * b ! (4 * j + 2) + a ! (i + 12) * b ! (4 * j + 3))
                            [0..<4]) [0..<4])"

definition m_premultiply :: "mat4 \<Rightarrow> mat4 \<Rightarrow> mat4" where
  "m_premultiply a b = m_multiplyMatrices b a"

subsection \<open>Camera, octree nodes and the viewer\<close>

text \<open>
  What one call reads from its surroundings: the camera (\<open>matrixWorldInverse\<close> is
  the result of \<^verbatim>\<open>copy(this.camera.matrixWorld).invert()\<close>, a library computation
  taken as given) and the size reported by \<^verbatim>\<open>getRenderDimensions\<close>.
\<close>

record camera =
  position :: vec3
  quaternion :: quat
  matrixWorldInverse :: mat4
  projectionMatrix :: mat4

record frame =
  cam :: camera
  renderWidth :: real
  renderHeight :: real

text \<open>
  A leaf of the octree that owns splats. \<open>distanceToNode\<close> is the per-pass scalar
  \<^verbatim>\<open>node.data.distanceToNode\<close>; \<open>indexes\<close> is \<^verbatim>\<open>node.data.indexes\<close>.
\<close>

record octree_node =
  center :: vec3
  node_min :: vec3
  node_max :: vec3
  indexes :: "uint32 list"
  distanceToNode :: real

text \<open>
  A \<^verbatim>\<open>Uint32Array\<close> over an \<^verbatim>\<open>ArrayBuffer\<close>: \<open>buffer\<close> is the whole buffer read
  in 4-byte elements, the view covers \<open>view_length\<close> elements from \<open>byteOffset\<close>.
\<close>

record u32view =
  buffer :: "uint32 list"
  byteOffset :: nat
  view_length :: nat

datatype js_error = TypeError | RangeError

text \<open>What the worker is sent with \<^verbatim>\<open>postMessage\<close>.\<close>

record sort_job =
  job_view :: mat4
  job_cameraPosition :: "real list"
  job_vertexRenderCount :: nat
  job_vertexSortCount :: nat
  job_inIndexBuffer :: "uint32 list"

datatype worker_request = Positions "real list" | Sort sort_job

text \<open>What the worker sends back (\<^verbatim>\<open>e.data\<close>); the flags are read for truthiness.\<close>

record worker_reply =
  sortDone :: bool
  sortCanceled :: bool
  sortSetupPhase1Complete :: bool
  sortSetupComplete :: bool
  reply_vertexRenderCount :: nat
  outIndexBuffer :: "uint32 list"
  outIndexOffset :: nat
  inIndexBuffer :: "uint32 list"
  inIndexOffset :: nat

text \<open>
  The fields of the viewer that the scheduler reads or writes once a scene is loaded,
  together with the vectors that \<^verbatim>\<open>updateView\<close> keeps in its closure between calls
  and the list of messages posted to the sort worker so far.
\<close>

record viewer =
  sortRunning :: bool
  vertexRenderCount :: nat
  vertexSortCount :: nat
  inIndexArray :: "u32view option"
  outIndexArray :: "u32view option"
  nodesWithIndexes :: "octree_node list"
  cameraFocalLength :: real
  vertexCount :: nat
  splatPositions :: "real list"
  splatIndex :: "uint32 list"
  instanceCount :: nat
  splatRenderingInitialized :: bool
  lastSortViewDir :: vec3
  sortViewDir :: vec3
  lastSortViewPos :: vec3
  posted :: "worker_request list"

subsection \<open>Typed arrays\<close>

text \<open>
  \<^verbatim>\<open>new Uint32Array(buffer, byteOffset, length)\<close> raises a RangeError when the offset
  is not a multiple of the element size or the window leaves the buffer.
\<close>

definition new_Uint32Array :: "uint32 list \<Rightarrow> nat \<Rightarrow> nat \<Rightarrow> js_error + u32view" where
  "new_Uint32Array b off n =
     (if off mod 4 \<noteq> 0 \<or> 4 * length b < off + 4 * n then Inl RangeError
      else Inr \<lparr>buffer = b, byteOffset = off, view_length = n\<rparr>)"

definition view_elements :: "u32view \<Rightarrow> uint32 list" where
  "view_elements v = take (view_length v) (drop (byteOffset v div 4) (buffer v))"

text \<open>\<^verbatim>\<open>view.set(src)\<close> with a source no longer than the view.\<close>

definition view_set :: "u32view \<Rightarrow> uint32 list \<Rightarrow> u32view" where
  "view_set v src =
     v\<lparr>buffer := take (byteOffset v div 4) (buffer v) @ src
                  @ drop (byteOffset v div 4 + length src) (buffer v)\<rparr>"

text \<open>
  Modelled from the spec: \<^verbatim>\<open>Constants.BytesPerInt\<close> (Constants.js is not among the
  sources); the index arrays are packed contiguously, so it is the size of one element.
\<close>

definition BytesPerInt :: nat where
  "BytesPerInt = 4"

subsection \<open>gatherSceneNodes\<close>

definition forward :: vec3 where
  "forward = Vector3 0 0 (- 1)"

definition MaximumDistanceToSort :: real where
  "MaximumDistanceToSort = 125"

definition nodeSize :: "octree_node \<Rightarrow> real" where
  "nodeSize node = v_length (v_sub (node_max node) (node_min node))"

definition cosFovXOver2 :: "frame \<Rightarrow> viewer \<Rightarrow> real" where
  "cosFovXOver2 fr s = cos (arctan (renderWidth fr / 2 / cameraFocalLength s))"

definition cosFovYOver2 :: "frame \<Rightarrow> viewer \<Rightarrow> real" where
  "cosFovYOver2 fr s = cos (arctan (renderHeight fr / 2 / cameraFocalLength s))"

definition nodeDistance :: "frame \<Rightarrow> octree_node \<Rightarrow> real" where
  "nodeDistance fr node = v_length (v_sub (center node) (position (cam fr)))"

text \<open>The direction to the node centre in camera space (\<^verbatim>\<open>tempVector\<close> after line 478).\<close>

definition nodeDirection :: "frame \<Rightarrow> octree_node \<Rightarrow> vec3" where
  "nodeDirection fr node =
     v_transformDirection (v_normalize (v_sub (center node) (position (cam fr))))
       (matrixWorldInverse (cam fr))"

definition cameraAngleXZDot :: "frame \<Rightarrow> octree_node \<Rightarrow> real" where
  "cameraAngleXZDot fr node = v_dot forward (v_normalize (v_setY (nodeDirection fr node) 0))"

definition cameraAngleYZDot :: "frame \<Rightarrow> octree_node \<Rightarrow> real" where
  "cameraAngleYZDot fr node = v_dot forward (v_normalize (v_setX (nodeDirection fr node) 0))"

definition outOfFovY :: "frame \<Rightarrow> viewer \<Rightarrow> octree_node \<Rightarrow> bool" where
  "outOfFovY fr s node = (cameraAngleYZDot fr node < cosFovYOver2 fr s - 0.4)"

definition outOfFovX :: "frame \<Rightarrow> viewer \<Rightarrow> octree_node \<Rightarrow> bool" where
  "outOfFovX fr s node = (cameraAngleXZDot fr node < cosFovXOver2 fr s - 0.4)"

text \<open>The condition of the \<^verbatim>\<open>continue\<close> on line 489.\<close>

definition culled :: "bool \<Rightarrow> frame \<Rightarrow> viewer \<Rightarrow> octree_node \<Rightarrow> bool" where
  "culled gatherAllNodes fr s node =
     (\<not> gatherAllNodes \<and>
      ((outOfFovX fr s node \<or> outOfFovY fr s node) \<and> nodeDistance fr node > nodeSize node))"

text \<open>The node as the loop leaves it: \<^verbatim>\<open>node.data.distanceToNode = distanceToNode\<close>.\<close>

definition stamped :: "frame \<Rightarrow> octree_node \<Rightarrow> octree_node" where
  "stamped fr node = node\<lparr>distanceToNode := nodeDistance fr node\<rparr>"

text \<open>
  The first loop (lines 473 to 496), over the remaining nodes, with the render list and
  \<^verbatim>\<open>verticesToCopy\<close> built so far. \<^verbatim>\<open>nodeRenderList\<close> is kept between calls, but
  entries \<open>0 .. nodeRenderCount - 1\<close> are all assigned and the length is cut to
  \<open>nodeRenderCount\<close>, so each pass starts from the empty list.
\<close>

fun cull_loop :: "bool \<Rightarrow> frame \<Rightarrow> viewer \<Rightarrow> octree_node list
    \<Rightarrow> octree_node list \<times> nat \<Rightarrow> octree_node list \<times> nat" where
  "cull_loop g fr s [] acc = acc"
| "cull_loop g fr s (node # rest) (nodeRenderList, verticesToCopy) =
     (if culled g fr s node then cull_loop g fr s rest (nodeRenderList, verticesToCopy)
      else cull_loop g fr s rest
             (nodeRenderList @ [stamped fr node], verticesToCopy + length (indexes node)))"

text \<open>The nodes of the octree after the loop: the kept ones carry the new distance.\<close>

definition visited :: "bool \<Rightarrow> frame \<Rightarrow> viewer \<Rightarrow> octree_node \<Rightarrow> octree_node" where
  "visited g fr s node = (if culled g fr s node then node else stamped fr node)"

text \<open>The comparison function handed to \<^verbatim>\<open>sort\<close> (lines 499 to 502).\<close>

definition compareNodes :: "octree_node \<Rightarrow> octree_node \<Rightarrow> int" where
  "compareNodes a b = (if distanceToNode a > distanceToNode b then 1 else - 1)"

text \<open>
  \<^verbatim>\<open>Array.prototype.sort\<close> is a built-in of the host. It is modelled by an insertion
  sort that reads nothing but the sign of the comparison function: the elements are
  taken from the left and each is put before the first element it does not follow.
\<close>

fun insert_by :: "('a \<Rightarrow> 'a \<Rightarrow> int) \<Rightarrow> 'a \<Rightarrow> 'a list \<Rightarrow> 'a list" where
  "insert_by cmp a [] = [a]"
| "insert_by cmp a (b # bs) = (if cmp a b < 0 then a # b # bs else b # insert_by cmp a bs)"

definition array_sort :: "('a \<Rightarrow> 'a \<Rightarrow> int) \<Rightarrow> 'a list \<Rightarrow> 'a list" where
  "array_sort cmp as = foldl (\<lambda>done a. insert_by cmp a done) [] as"

text \<open>The Candidate List: \<^verbatim>\<open>nodeRenderList\<close> after line 502.\<close>

definition nodeRenderList :: "bool \<Rightarrow> frame \<Rightarrow> viewer \<Rightarrow> octree_node list" where
  "nodeRenderList g fr s =
     array_sort compareNodes (fst (cull_loop g fr s (nodesWithIndexes s) ([], 0)))"

text \<open>
  The body of the second loop (lines 508 to 516) and the loop over the remaining render
  list, at byte offset \<open>currentByteOffset\<close>. The window is taken on
  \<^verbatim>\<open>this.inIndexArray.buffer\<close>, from the start of the buffer. A call that raises
  returns the error beside the viewer as the exception leaves it.
\<close>

definition pack_node :: "octree_node \<Rightarrow> nat \<Rightarrow> viewer \<Rightarrow> js_error option \<times> viewer" where
  "pack_node node currentByteOffset s =
     (let shouldSort = distanceToNode node \<le> MaximumDistanceToSort;
          s1 = (if shouldSort
                then s\<lparr>vertexSortCount := vertexSortCount s + length (indexes node)\<rparr> else s);
          windowSizeInts = length (indexes node)
      in case inIndexArray s1 of
           None \<Rightarrow> (Some TypeError, s1)
         | Some arr \<Rightarrow>
             (case new_Uint32Array (buffer arr) currentByteOffset windowSizeInts of
                Inl err \<Rightarrow> (Some err, s1)
              | Inr destView \<Rightarrow>
                  (None, s1\<lparr>inIndexArray :=
                             Some (arr\<lparr>buffer := buffer (view_set destView (indexes node))\<rparr>)\<rparr>)))"

fun pack_loop :: "octree_node list \<Rightarrow> nat \<Rightarrow> viewer \<Rightarrow> js_error option \<times> viewer" where
  "pack_loop [] currentByteOffset s = (None, s)"
| "pack_loop (node # rest) currentByteOffset s =
     (case pack_node node currentByteOffset s of
        (Some err, s1) \<Rightarrow> (Some err, s1)
      | (None, s1) \<Rightarrow>
          pack_loop rest (currentByteOffset + length (indexes node) * BytesPerInt) s1)"

definition gatherSceneNodes :: "bool \<Rightarrow> frame \<Rightarrow> viewer \<Rightarrow> js_error option \<times> viewer" where
  "gatherSceneNodes gatherAllNodes fr s =
     (let verticesToCopy = snd (cull_loop gatherAllNodes fr s (nodesWithIndexes s) ([], 0));
          sorted_list = nodeRenderList gatherAllNodes fr s;
          s1 = s\<lparr>nodesWithIndexes := map (visited gatherAllNodes fr s) (nodesWithIndexes s),
                 vertexRenderCount := verticesToCopy,
                 vertexSortCount := 0\<rparr>
      in pack_loop sorted_list 0 s1)"

subsection \<open>Publishing to the mesh\<close>

text \<open>
  \<^verbatim>\<open>geometry.attributes.splatIndex.set(indexes)\<close> copies into the start of the
  attribute's array; it raises a TypeError for an array that was never assigned and a
  RangeError for one longer than the attribute.
\<close>

definition updateSplatMeshIndexes ::
    "u32view option \<Rightarrow> nat \<Rightarrow> viewer \<Rightarrow> js_error option \<times> viewer" where
  "updateSplatMeshIndexes indexes_arg renderVertexCount s =
     (case indexes_arg of
        None \<Rightarrow> (Some TypeError, s)
      | Some arr \<Rightarrow>
          if length (splatIndex s) < view_length arr then (Some RangeError, s)
          else (None, s\<lparr>splatIndex := view_elements arr @ drop (view_length arr) (splatIndex s),
                          instanceCount := renderVertexCount\<rparr>))"

text \<open>
  Of \<^verbatim>\<open>updateSplatMeshAttributes\<close> only the last assignment touches the fields above;
  the two data textures it builds are not part of the model.
\<close>

definition updateSplatMeshAttributes :: "nat \<Rightarrow> viewer \<Rightarrow> viewer" where
  "updateSplatMeshAttributes vertexCount_arg s = s\<lparr>instanceCount := vertexCount_arg\<rparr>"

subsection \<open>updateView\<close>

definition updateView :: "bool \<Rightarrow> bool \<Rightarrow> frame \<Rightarrow> viewer \<Rightarrow> js_error option \<times> viewer" where
  "updateView force gatherAllNodes fr s =
     (let s1 = (if \<not> force
                then s\<lparr>sortViewDir := v_applyQuaternion (Vector3 0 0 (- 1)) (quaternion (cam fr))\<rparr>
                else s);
          needsRefreshForRotation = (v_dot (sortViewDir s1) (lastSortViewDir s1) \<le> 0.95);
          needsRefreshForPosition =
            (v_length (v_sub (position (cam fr)) (lastSortViewPos s1)) \<ge> 1.0)
      in if \<not> force \<and> \<not> needsRefreshForRotation \<and> \<not> needsRefreshForPosition then (None, s1)
         else
           (let tempMatrix = m_premultiply (matrixWorldInverse (cam fr)) (projectionMatrix (cam fr));
                cameraPositionArray =
                  [vx (position (cam fr)), vy (position (cam fr)), vz (position (cam fr))]
            in if \<not> sortRunning s1 then
                 (case gatherSceneNodes gatherAllNodes fr s1 of
                    (Some err, s2) \<Rightarrow> (Some err, s2)
                  | (None, s2) \<Rightarrow>
                      (case inIndexArray s2 of
                         None \<Rightarrow> (Some TypeError, s2\<lparr>sortRunning := True\<rparr>)
                       | Some arr \<Rightarrow>
                           (None, s2\<lparr>sortRunning := True,
                                       posted := posted s2 @
                                         [Sort \<lparr>job_view = tempMatrix,
                                                job_cameraPosition = cameraPositionArray,
                                                job_vertexRenderCount = vertexRenderCount s2,
                                                job_vertexSortCount = vertexSortCount s2,
                                                job_inIndexBuffer = buffer arr\<rparr>],
                                       lastSortViewPos := position (cam fr),
                                       lastSortViewDir := sortViewDir s2\<rparr>)))
               else (None, s1)))"

subsection \<open>The handler of the worker's messages\<close>

text \<open>
  The phase-1 branch (lines 317 to 328): \<open>splatPositions\<close> is the array that
  \<^verbatim>\<open>fillPositionArray\<close> fills, \<open>vertexCount\<close> the count of the splat buffer.
\<close>

definition setupPhase1 :: "worker_reply \<Rightarrow> viewer \<Rightarrow> js_error option \<times> viewer" where
  "setupPhase1 e s =
     (let s1 = s\<lparr>posted := posted s @ [Positions (splatPositions s)]\<rparr>
      in case new_Uint32Array (outIndexBuffer e) (outIndexOffset e) (vertexCount s) of
           Inl err \<Rightarrow> (Some err, s1)
         | Inr out_arr \<Rightarrow>
             (case new_Uint32Array (inIndexBuffer e) (inIndexOffset e) (vertexCount s) of
                Inl err \<Rightarrow> (Some err, s1\<lparr>outIndexArray := Some out_arr\<rparr>)
              | Inr in_arr \<Rightarrow>
                  (None, s1\<lparr>outIndexArray := Some out_arr,
                              inIndexArray :=
                                Some (view_set in_arr (map of_nat [0..<vertexCount s]))\<rparr>)))"

definition setupComplete :: "frame \<Rightarrow> viewer \<Rightarrow> js_error option \<times> viewer" where
  "setupComplete fr s =
     (case updateSplatMeshIndexes (outIndexArray s) (vertexCount s) s of
        (Some err, s1) \<Rightarrow> (Some err, s1)
      | (None, s1) \<Rightarrow>
          (case updateView True True fr (updateSplatMeshAttributes (vertexCount s1) s1) of
             (Some err, s2) \<Rightarrow> (Some err, s2)
           | (None, s2) \<Rightarrow> (None, s2\<lparr>splatRenderingInitialized := True\<rparr>)))"

text \<open>
  \<^verbatim>\<open>sortWorker.onmessage\<close> (lines 311 to 339); \<open>fr\<close> is the camera and render size
  at the moment the message is handled, read by the \<^verbatim>\<open>updateView(true, true)\<close> of the
  last branch.
\<close>

definition onmessage :: "worker_reply \<Rightarrow> frame \<Rightarrow> viewer \<Rightarrow> js_error option \<times> viewer" where
  "onmessage e fr s =
     (if sortDone e then
        updateSplatMeshIndexes (outIndexArray s) (reply_vertexRenderCount e)
          (s\<lparr>sortRunning := False\<rparr>)
      else if sortCanceled e then (None, s\<lparr>sortRunning := False\<rparr>)
      else if sortSetupPhase1Complete e then setupPhase1 e s
      else if sortSetupComplete e then setupComplete fr s
      else (None, s))"

text \<open>What can happen to a loaded viewer: a call of \<^verbatim>\<open>updateView\<close> or a message.\<close>

datatype event = CallUpdateView bool bool frame | Message worker_reply frame

fun step :: "event \<Rightarrow> viewer \<Rightarrow> js_error option \<times> viewer" where
  "step (CallUpdateView force gatherAllNodes fr) s = updateView force gatherAllNodes fr s"
| "step (Message e fr) s = onmessage e fr s"

subsection \<open>A small scene\<close>

text \<open>
  Concrete inputs for the examples below: a camera at the origin looking down the
  negative z axis, a 600 by 600 viewport with focal length 400 (so the cosine of each
  half field of view is 4/5), and three leaves holding six splats: one 200 units ahead,
  one 10 units ahead, and one 25 units away, steeply above the view axis.
\<close>

definition identity4 :: mat4 where
  "identity4 = [1, 0, 0, 0, 0, 1, 0, 0, 0, 0, 1, 0, 0, 0, 0, 1]"

definition ex_camera :: camera where
  "ex_camera = \<lparr>position = Vector3 0 0 0, quaternion = Quaternion 0 0 0 1,
                 matrixWorldInverse = identity4, projectionMatrix = identity4\<rparr>"

definition ex_frame :: frame where
  "ex_frame = \<lparr>cam = ex_camera, renderWidth = 600, renderHeight = 600\<rparr>"

definition node_far :: octree_node where
  "node_far = \<lparr>center = Vector3 0 0 (- 200), node_min = Vector3 (- 1) (- 1) (- 401 / 2),
               node_max = Vector3 1 1 (- 399 / 2), indexes = [0, 1], distanceToNode = 0\<rparr>"

definition node_near :: octree_node where
  "node_near = \<lparr>center = Vector3 0 0 (- 10), node_min = Vector3 (- 1) (- 1) (- 21 / 2),
               node_max = Vector3 1 1 (- 19 / 2), indexes = [2, 3, 4], distanceToNode = 0\<rparr>"

definition node_above :: octree_node where
  "node_above = \<lparr>center = Vector3 0 24 (- 7), node_min = Vector3 (- 1) 23 (- 15 / 2),
               node_max = Vector3 1 25 (- 13 / 2), indexes = [5], distanceToNode = 0\<rparr>"

definition ex_viewer :: viewer where
  "ex_viewer = \<lparr>sortRunning = False, vertexRenderCount = 0, vertexSortCount = 0,
     inIndexArray = Some \<lparr>buffer = [0, 1, 2, 3, 4, 5], byteOffset = 0, view_length = 6\<rparr>,
     outIndexArray = Some \<lparr>buffer = [5, 4, 3, 2, 1, 0], byteOffset = 0, view_length = 6\<rparr>,
     nodesWithIndexes = [node_far, node_near, node_above],
     cameraFocalLength = 400, vertexCount = 6,
     splatPositions = [0, 0, - 200, 0, 0, - 200, 0, 0, - 10, 0, 0, - 10, 0, 0, - 10, 0, 24, - 7],
     splatIndex = [0, 0, 0, 0, 0, 0], instanceCount = 6, splatRenderingInitialized = True,
     lastSortViewDir = Vector3 0 0 (- 1), sortViewDir = Vector3 0 0 (- 1),
     lastSortViewPos = Vector3 0 0 0, posted = []\<rparr>"

text \<open>
  The same viewer with a job in flight, the camera moved by exactly one unit, the camera
  turned half a turn about the y axis, and two replies of the worker.
\<close>

definition ex_busy :: viewer where
  "ex_busy = ex_viewer\<lparr>sortRunning := True\<rparr>"

definition frame_moved :: frame where
  "frame_moved = ex_frame\<lparr>cam := ex_camera\<lparr>position := Vector3 0 0 1\<rparr>\<rparr>"

definition frame_turned :: frame where
  "frame_turned = ex_frame\<lparr>cam := ex_camera\<lparr>quaternion := Quaternion 0 1 0 0,
      matrixWorldInverse := [- 1, 0, 0, 0, 0, 1, 0, 0, 0, 0, - 1, 0, 0, 0, 0, 1]\<rparr>\<rparr>"

definition reply_canceled :: worker_reply where
  "reply_canceled = \<lparr>sortDone = False, sortCanceled = True, sortSetupPhase1Complete = False,
     sortSetupComplete = False, reply_vertexRenderCount = 0, outIndexBuffer = [],
     outIndexOffset = 0, inIndexBuffer = [], inIndexOffset = 0\<rparr>"

definition reply_done :: worker_reply where
  "reply_done = \<lparr>sortDone = True, sortCanceled = False, sortSetupPhase1Complete = False,
     sortSetupComplete = False, reply_vertexRenderCount = 3, outIndexBuffer = [],
     outIndexOffset = 0, inIndexBuffer = [], inIndexOffset = 0\<rparr>"

text \<open>
  The small scene before the worker's first reply: the octree is built, the two index
  arrays are still unassigned.
\<close>

definition ex_unready :: viewer where
  "ex_unready = ex_viewer\<lparr>inIndexArray := None, outIndexArray := None,
                           splatRenderingInitialized := False\<rparr>"

text \<open>
  For stating the properties: the number of splats owned by those nodes of a list that
  the second loop counts into \<^verbatim>\<open>vertexSortCount\<close>.
\<close>

definition fineSortCount :: "octree_node list \<Rightarrow> nat" where
  "fineSortCount ns =
     length (concat (map indexes (filter (\<lambda>n. distanceToNode n \<le> MaximumDistanceToSort) ns)))"

section \<open>Properties\<close>

subsection \<open>The two loops and the sort\<close>

lemma cull_loop_eq:
  "cull_loop g fr s ns (rl, vc) =
     (rl @ map (stamped fr) (filter (\<lambda>n. \<not> culled g fr s n) ns),
      vc + length (concat (map indexes (filter (\<lambda>n. \<not> culled g fr s n) ns))))"
  by (induction ns arbitrary: rl vc) simp_all

lemma mset_insert_by: "mset (insert_by cmp a bs) = add_mset a (mset bs)"
  by (induction bs) simp_all

lemma mset_array_sort_aux:
  "mset (foldl (\<lambda>done a. insert_by cmp a done) acc as) = mset acc + mset as"
  by (induction as arbitrary: acc) (simp_all add: mset_insert_by)

lemma mset_array_sort: "mset (array_sort cmp as) = mset as"
  by (simp add: array_sort_def mset_array_sort_aux)

lemma set_insert_by: "set (insert_by cmp a bs) = insert a (set bs)"
  by (induction bs) auto

lemma sorted_insert_by_compareNodes:
  "sorted (map distanceToNode bs) \<Longrightarrow> sorted (map distanceToNode (insert_by compareNodes a bs))"
  by (induction bs) (auto simp: compareNodes_def set_insert_by)

lemma sorted_array_sort_aux:
  "sorted (map distanceToNode acc) \<Longrightarrow>
   sorted (map distanceToNode (foldl (\<lambda>done a. insert_by compareNodes a done) acc as))"
  by (induction as arbitrary: acc) (simp_all add: sorted_insert_by_compareNodes)

lemma sorted_array_sort: "sorted (map distanceToNode (array_sort compareNodes as))"
  by (simp add: array_sort_def sorted_array_sort_aux)

lemma filter_takeWhile_sorted:
  "sorted (map f xs) \<Longrightarrow> filter (\<lambda>x. f x \<le> (c::real)) xs = takeWhile (\<lambda>x. f x \<le> c) xs"
proof (induction xs)
  case Nil
  then show ?case by simp
next
  case (Cons a xs)
  show ?case
  proof (cases "f a \<le> c")
    case True
    with Cons show ?thesis by simp
  next
    case False
    with Cons.prems have "\<forall>x \<in> set xs. \<not> f x \<le> c" by auto
    with False show ?thesis by (simp add: filter_empty_conv)
  qed
qed

lemma pack_node_ok:
  assumes "inIndexArray s = Some arr" and "k + length (indexes node) \<le> length (buffer arr)"
  shows "pack_node node (4 * k) s =
     (None, s\<lparr>vertexSortCount := vertexSortCount s + fineSortCount [node],
               inIndexArray := Some (arr\<lparr>buffer := take k (buffer arr) @ indexes node
                                   @ drop (k + length (indexes node)) (buffer arr)\<rparr>)\<rparr>)"
  using assms
  by (simp add: pack_node_def fineSortCount_def new_Uint32Array_def view_set_def Let_def)

lemma pack_loop_ok:
  assumes "inIndexArray s = Some arr"
    and "k + length (concat (map indexes ns)) \<le> length (buffer arr)"
  shows "pack_loop ns (4 * k) s =
     (None, s\<lparr>vertexSortCount := vertexSortCount s + fineSortCount ns,
               inIndexArray := Some (arr\<lparr>buffer := take k (buffer arr) @ concat (map indexes ns)
                                   @ drop (k + length (concat (map indexes ns))) (buffer arr)\<rparr>)\<rparr>)"
  using assms
proof (induction ns arbitrary: s arr k)
  case Nil
  then show ?case by (simp add: fineSortCount_def)
next
  case (Cons node ns)
  let ?m = "length (indexes node)"
  let ?arr1 = "arr\<lparr>buffer := take k (buffer arr) @ indexes node @ drop (k + ?m) (buffer arr)\<rparr>"
  let ?s1 = "s\<lparr>vertexSortCount := vertexSortCount s + fineSortCount [node], inIndexArray := Some ?arr1\<rparr>"
  from Cons.prems have fit: "k + ?m \<le> length (buffer arr)" by simp
  have step1: "pack_node node (4 * k) s = (None, ?s1)"
    using Cons.prems(1) fit by (rule pack_node_ok)
  have in1: "inIndexArray ?s1 = Some ?arr1" by simp
  have len1: "length (buffer ?arr1) = length (buffer arr)" using fit by simp
  have fit1: "(k + ?m) + length (concat (map indexes ns)) \<le> length (buffer ?arr1)"
    using Cons.prems(2) len1 by simp
  have off: "4 * k + ?m * BytesPerInt = 4 * (k + ?m)" by (simp add: BytesPerInt_def)
  have rec: "pack_loop ns (4 * (k + ?m)) ?s1 =
     (None, ?s1\<lparr>vertexSortCount := vertexSortCount ?s1 + fineSortCount ns,
               inIndexArray := Some (?arr1\<lparr>buffer := take (k + ?m) (buffer ?arr1) @ concat (map indexes ns)
                                   @ drop ((k + ?m) + length (concat (map indexes ns))) (buffer ?arr1)\<rparr>)\<rparr>)"
    using in1 fit1 by (rule Cons.IH)
  have tk: "take (k + ?m) (buffer ?arr1) = take k (buffer arr) @ indexes node"
    using fit by simp
  have dr: "drop ((k + ?m) + length (concat (map indexes ns))) (buffer ?arr1)
          = drop (k + (?m + length (concat (map indexes ns)))) (buffer arr)"
    using fit by (simp add: ac_simps)
  have nc: "fineSortCount (node # ns) = fineSortCount [node] + fineSortCount ns"
    by (simp add: fineSortCount_def)
  have "pack_loop (node # ns) (4 * k) s = pack_loop ns (4 * k + ?m * BytesPerInt) ?s1"
    by (simp add: step1)
  also have "\<dots> = pack_loop ns (4 * (k + ?m)) ?s1"
    by (simp only: off)
  also note rec
  finally show ?case
    by (simp only: tk dr nc) (simp add: add.assoc)
qed

lemma mset_concat_map:
  "mset (concat (map f xs)) = \<Sum>\<^sub># (image_mset (\<lambda>x. mset (f x)) (mset xs))"
  by (induction xs) simp_all

lemma mset_concat_cong:
  assumes "mset xs = mset ys"
  shows "mset (concat (map f xs)) = mset (concat (map f ys))"
  by (simp only: mset_concat_map assms)

lemma indexes_stamped: "indexes (stamped fr n) = indexes n"
  by (simp add: stamped_def)

lemma distance_stamped: "distanceToNode (stamped fr n) = nodeDistance fr n"
  by (simp add: stamped_def)

lemma mset_nodeRenderList:
  "mset (nodeRenderList g fr s) =
   mset (map (stamped fr) (filter (\<lambda>n. \<not> culled g fr s n) (nodesWithIndexes s)))"
  by (simp add: nodeRenderList_def mset_array_sort cull_loop_eq)

lemma sorted_nodeRenderList: "sorted (map distanceToNode (nodeRenderList g fr s))"
  by (simp add: nodeRenderList_def sorted_array_sort)

lemma mset_packed:
  "mset (concat (map indexes (nodeRenderList g fr s))) =
   mset (concat (map indexes (filter (\<lambda>n. \<not> culled g fr s n) (nodesWithIndexes s))))"
proof -
  have "mset (concat (map indexes (nodeRenderList g fr s))) =
        mset (concat (map indexes (map (stamped fr)
               (filter (\<lambda>n. \<not> culled g fr s n) (nodesWithIndexes s)))))"
    by (rule mset_concat_cong) (rule mset_nodeRenderList)
  also have "map indexes (map (stamped fr) (filter (\<lambda>n. \<not> culled g fr s n) (nodesWithIndexes s)))
           = map indexes (filter (\<lambda>n. \<not> culled g fr s n) (nodesWithIndexes s))"
    by (simp add: indexes_stamped)
  finally show ?thesis .
qed

lemma length_packed:
  "length (concat (map indexes (filter (\<lambda>n. \<not> culled g fr s n) (nodesWithIndexes s)))) =
   length (concat (map indexes (nodeRenderList g fr s)))"
  by (rule mset_eq_length) (rule mset_packed [symmetric])

lemma gatherSceneNodes_ok:
  assumes "inIndexArray s = Some arr"
    and "length (concat (map indexes (nodeRenderList g fr s))) \<le> length (buffer arr)"
  shows "gatherSceneNodes g fr s =
     (None, s\<lparr>nodesWithIndexes := map (visited g fr s) (nodesWithIndexes s),
               vertexRenderCount := length (concat (map indexes (nodeRenderList g fr s))),
               vertexSortCount := fineSortCount (nodeRenderList g fr s),
               inIndexArray := Some (arr\<lparr>buffer := concat (map indexes (nodeRenderList g fr s))
                    @ drop (length (concat (map indexes (nodeRenderList g fr s)))) (buffer arr)\<rparr>)\<rparr>)"
proof -
  let ?s1 = "s\<lparr>nodesWithIndexes := map (visited g fr s) (nodesWithIndexes s),
               vertexRenderCount := length (concat (map indexes (nodeRenderList g fr s))),
               vertexSortCount := 0\<rparr>"
  have g: "gatherSceneNodes g fr s = pack_loop (nodeRenderList g fr s) (4 * 0) ?s1"
    by (simp add: gatherSceneNodes_def Let_def cull_loop_eq length_packed)
  have in1: "inIndexArray ?s1 = Some arr" using assms(1) by simp
  have fit: "0 + length (concat (map indexes (nodeRenderList g fr s))) \<le> length (buffer arr)"
    using assms(2) by simp
  show ?thesis
    unfolding g by (subst pack_loop_ok [OF in1 fit]) simp
qed

lemma pack_node_fits:
  assumes "inIndexArray s = Some arr" and "fst (pack_node node (4 * k) s) = None"
  shows "k + length (indexes node) \<le> length (buffer arr)"
  using assms
  by (auto simp: pack_node_def new_Uint32Array_def Let_def split: if_splits)

lemma pack_loop_fits:
  assumes "inIndexArray s = Some arr" and "fst (pack_loop ns (4 * k) s) = None" and "ns \<noteq> []"
  shows "k + length (concat (map indexes ns)) \<le> length (buffer arr)"
  using assms
proof (induction ns arbitrary: s arr k)
  case Nil
  then show ?case by simp
next
  case (Cons node ns)
  let ?m = "length (indexes node)"
  obtain r s1 where pn: "pack_node node (4 * k) s = (r, s1)" by (cases "pack_node node (4 * k) s")
  from Cons.prems(2) pn have r: "r = None" by (cases r) simp_all
  from Cons.prems(1) pn r have fit: "k + ?m \<le> length (buffer arr)"
    using pack_node_fits [of s arr node k] by simp
  let ?arr1 = "arr\<lparr>buffer := take k (buffer arr) @ indexes node @ drop (k + ?m) (buffer arr)\<rparr>"
  from pack_node_ok [OF Cons.prems(1) fit] pn
  have in1: "inIndexArray s1 = Some ?arr1" by auto
  have off: "4 * k + ?m * BytesPerInt = 4 * (k + ?m)" by (simp add: BytesPerInt_def)
  from Cons.prems(2) pn r have rest: "fst (pack_loop ns (4 * (k + ?m)) s1) = None"
    by (simp add: off)
  show ?case
  proof (cases "ns = []")
    case True
    with fit show ?thesis by simp
  next
    case False
    from Cons.IH [OF in1 rest False] fit show ?thesis by simp
  qed
qed

lemma gatherSceneNodes_fits:
  assumes "inIndexArray s = Some arr" and "fst (gatherSceneNodes g fr s) = None"
  shows "length (concat (map indexes (nodeRenderList g fr s))) \<le> length (buffer arr)"
proof -
  let ?s1 = "s\<lparr>nodesWithIndexes := map (visited g fr s) (nodesWithIndexes s),
               vertexRenderCount := length (concat (map indexes (nodeRenderList g fr s))),
               vertexSortCount := 0\<rparr>"
  have g: "gatherSceneNodes g fr s = pack_loop (nodeRenderList g fr s) (4 * 0) ?s1"
    by (simp add: gatherSceneNodes_def Let_def cull_loop_eq length_packed)
  have in1: "inIndexArray ?s1 = Some arr" using assms(1) by simp
  from assms(2) have ret: "fst (pack_loop (nodeRenderList g fr s) (4 * 0) ?s1) = None"
    by (simp only: g)
  show ?thesis
  proof (cases "nodeRenderList g fr s = []")
    case True
    then show ?thesis by simp
  next
    case False
    from pack_loop_fits [OF in1 ret False] show ?thesis by simp
  qed
qed

lemma gatherSceneNodes_returns_iff:
  assumes "inIndexArray s = Some arr"
  shows "(fst (gatherSceneNodes g fr s) = None) =
         (length (concat (map indexes (nodeRenderList g fr s))) \<le> length (buffer arr))"
  using gatherSceneNodes_fits [OF assms] gatherSceneNodes_ok [OF assms] by (metis fst_conv)

lemma distinct_concat_filter:
  "distinct (concat (map f xs)) \<Longrightarrow> distinct (concat (map f (filter P xs)))"
  by (induction xs) auto

lemma distinct_packed:
  assumes "distinct (concat (map indexes (nodesWithIndexes s)))"
  shows "distinct (concat (map indexes (nodeRenderList g fr s)))"
proof -
  have "distinct (concat (map indexes (filter (\<lambda>n. \<not> culled g fr s n) (nodesWithIndexes s))))"
    using assms by (rule distinct_concat_filter)
  then show ?thesis
    using mset_packed [of g fr s] by (metis mset_eq_imp_distinct_iff)
qed

lemma take_prefix: "xs = a @ b \<Longrightarrow> take (length a) (xs @ c) = a"
  by simp

lemma array_sort_ties_reversed:
  "distanceToNode a = distanceToNode b \<Longrightarrow> array_sort compareNodes [a, b] = [b, a]"
  by (simp add: array_sort_def compareNodes_def)

subsection \<open>The small scene evaluated\<close>

lemma sqrt_eq: "0 \<le> y \<Longrightarrow> y * y = x \<Longrightarrow> sqrt x = y"
  by (rule real_sqrt_unique) (simp_all add: power2_eq_square)

lemma sqrt_vals:
  "sqrt 625 = 25" "sqrt 100 = 10" "sqrt 40000 = 200" "sqrt (49 / 625) = 7 / 25"
  "sqrt (25 / 16) = 5 / 4" "sqrt 9 = 3"
  by (rule sqrt_eq; simp)+

lemma ex_cos: "cosFovXOver2 ex_frame ex_viewer = 4 / 5" "cosFovYOver2 ex_frame ex_viewer = 4 / 5"
  by (simp_all add: cosFovXOver2_def cosFovYOver2_def ex_frame_def ex_viewer_def cos_arctan
      power2_eq_square sqrt_vals)

lemma ex_dist:
  "nodeDistance ex_frame node_far = 200" "nodeDistance ex_frame node_near = 10"
  "nodeDistance ex_frame node_above = 25"
  by (simp_all add: nodeDistance_def ex_frame_def ex_camera_def node_far_def node_near_def
      node_above_def v_sub_def v_length_def sqrt_vals)

lemma ex_size:
  "nodeSize node_far = 3" "nodeSize node_near = 3" "nodeSize node_above = 3"
  by (simp_all add: nodeSize_def node_far_def node_near_def
      node_above_def v_sub_def v_length_def sqrt_vals)

lemma ex_dir:
  "nodeDirection ex_frame node_far = Vector3 0 0 (- 1)"
  "nodeDirection ex_frame node_near = Vector3 0 0 (- 1)"
  "nodeDirection ex_frame node_above = Vector3 0 (24 / 25) (- 7 / 25)"
  by (simp_all add: nodeDirection_def ex_frame_def ex_camera_def node_far_def node_near_def
      node_above_def v_sub_def v_length_def v_normalize_def v_divideScalar_def
      v_multiplyScalar_def v_transformDirection_def identity4_def sqrt_vals)

lemma ex_dots:
  "cameraAngleXZDot ex_frame node_far = 1" "cameraAngleYZDot ex_frame node_far = 1"
  "cameraAngleXZDot ex_frame node_near = 1" "cameraAngleYZDot ex_frame node_near = 1"
  "cameraAngleXZDot ex_frame node_above = 1" "cameraAngleYZDot ex_frame node_above = 7 / 25"
  by (simp_all add: cameraAngleXZDot_def cameraAngleYZDot_def ex_dir forward_def v_dot_def
      v_setX_def v_setY_def v_length_def v_normalize_def v_divideScalar_def
      v_multiplyScalar_def sqrt_vals)

lemma ex_culled:
  "\<not> culled False ex_frame ex_viewer node_far" "\<not> culled False ex_frame ex_viewer node_near"
  "culled False ex_frame ex_viewer node_above"
  by (simp_all add: culled_def outOfFovX_def outOfFovY_def ex_dots ex_cos ex_dist ex_size)


lemma ex_nodes: "nodesWithIndexes ex_viewer = [node_far, node_near, node_above]"
  by (simp add: ex_viewer_def)

lemma ex_render_list:
  "nodeRenderList False ex_frame ex_viewer = [stamped ex_frame node_near, stamped ex_frame node_far]"
  by (simp add: nodeRenderList_def ex_nodes ex_culled array_sort_def compareNodes_def
      distance_stamped ex_dist)

lemma ex_indexes:
  "indexes node_far = [0, 1]" "indexes node_near = [2, 3, 4]" "indexes node_above = [5]"
  by (simp_all add: node_far_def node_near_def node_above_def)

lemma ex_in: "inIndexArray ex_viewer = Some \<lparr>buffer = [0, 1, 2, 3, 4, 5], byteOffset = 0, view_length = 6\<rparr>"
  by (simp add: ex_viewer_def)

lemma ex_gather_returns: "fst (gatherSceneNodes False ex_frame ex_viewer) = None"
  by (simp add: gatherSceneNodes_returns_iff [OF ex_in] ex_render_list indexes_stamped ex_indexes)

lemma culled_stamped: "culled g fr s (stamped fr' n) = culled g fr s n"
  by (simp add: culled_def outOfFovX_def outOfFovY_def cameraAngleXZDot_def cameraAngleYZDot_def
      nodeDirection_def nodeDistance_def nodeSize_def stamped_def)

lemma set_nodeRenderList:
  "set (nodeRenderList g fr s) =
   stamped fr ` {n \<in> set (nodesWithIndexes s). \<not> culled g fr s n}"
proof -
  have "set (nodeRenderList g fr s) = set_mset (mset (nodeRenderList g fr s))" by simp
  also have "\<dots> = set (map (stamped fr) (filter (\<lambda>n. \<not> culled g fr s n) (nodesWithIndexes s)))"
    by (simp only: mset_nodeRenderList set_mset_mset)
  finally show ?thesis by simp
qed

lemma excluded_iff_culled:
  assumes "node \<in> set (nodesWithIndexes s)"
  shows "(stamped fr node \<notin> set (nodeRenderList g fr s)) = culled g fr s node"
proof
  assume out: "stamped fr node \<notin> set (nodeRenderList g fr s)"
  show "culled g fr s node"
  proof (rule ccontr)
    assume "\<not> culled g fr s node"
    with assms have "stamped fr node \<in> set (nodeRenderList g fr s)"
      by (simp add: set_nodeRenderList)
    with out show False by simp
  qed
next
  assume c: "culled g fr s node"
  show "stamped fr node \<notin> set (nodeRenderList g fr s)"
  proof
    assume "stamped fr node \<in> set (nodeRenderList g fr s)"
    then obtain n where n: "\<not> culled g fr s n" "stamped fr node = stamped fr n"
      by (auto simp: set_nodeRenderList)
    from n(2) have "culled g fr s (stamped fr node) = culled g fr s (stamped fr n)" by simp
    with n(1) c show False by (simp add: culled_stamped)
  qed
qed

lemma ex_above_in: "node_above \<in> set (nodesWithIndexes ex_viewer)"
  by (simp add: ex_nodes)

lemma ex_above_tests:
  "\<not> outOfFovX ex_frame ex_viewer node_above" "outOfFovY ex_frame ex_viewer node_above"
  "nodeDistance ex_frame node_above > nodeSize node_above"
  by (simp_all add: outOfFovX_def outOfFovY_def ex_dots ex_cos ex_dist ex_size)

subsection \<open>What a pass and a call leave alone\<close>

lemma pack_node_frame:
  "snd (pack_node node off s) =
     s\<lparr>vertexSortCount := vertexSortCount (snd (pack_node node off s)),
       inIndexArray := inIndexArray (snd (pack_node node off s))\<rparr>
   \<and> (inIndexArray (snd (pack_node node off s)) = None) = (inIndexArray s = None)"
  by (simp add: pack_node_def Let_def split: option.split sum.split)

lemma pack_loop_frame:
  "snd (pack_loop ns off s) =
     s\<lparr>vertexSortCount := vertexSortCount (snd (pack_loop ns off s)),
       inIndexArray := inIndexArray (snd (pack_loop ns off s))\<rparr>
   \<and> (inIndexArray (snd (pack_loop ns off s)) = None) = (inIndexArray s = None)"
proof (induction ns arbitrary: off s)
  case Nil
  show ?case by simp
next
  case (Cons node ns)
  obtain r s1 where pn: "pack_node node off s = (r, s1)" by (cases "pack_node node off s")
  from pack_node_frame [of node off s] pn
  have f1: "s1 = s\<lparr>vertexSortCount := vertexSortCount s1, inIndexArray := inIndexArray s1\<rparr>"
    and n1: "(inIndexArray s1 = None) = (inIndexArray s = None)" by simp_all
  show ?case
  proof (cases r)
    case (Some err)
    with pn f1 n1 show ?thesis by simp
  next
    case None
    let ?s2 = "snd (pack_loop ns (off + length (indexes node) * BytesPerInt) s1)"
    from Cons.IH [of "off + length (indexes node) * BytesPerInt" s1]
    have f2: "?s2 = s1\<lparr>vertexSortCount := vertexSortCount ?s2, inIndexArray := inIndexArray ?s2\<rparr>"
      and n2: "(inIndexArray ?s2 = None) = (inIndexArray s1 = None)" by simp_all
    have eq: "snd (pack_loop (node # ns) off s) = ?s2" using pn None by simp
    have "?s2 = s\<lparr>vertexSortCount := vertexSortCount ?s2, inIndexArray := inIndexArray ?s2\<rparr>"
      by (subst f2, subst f1) simp
    with n1 n2 show ?thesis unfolding eq by simp
  qed
qed

lemma pack_loop_changes:
  "\<exists>c a. snd (pack_loop ns off s) = s\<lparr>vertexSortCount := c, inIndexArray := a\<rparr>
         \<and> (a = None) = (inIndexArray s = None)"
  by (intro exI) (rule pack_loop_frame)

lemma gatherSceneNodes_changes:
  "\<exists>n v c a. snd (gatherSceneNodes g fr s) =
       s\<lparr>nodesWithIndexes := n, vertexRenderCount := v, vertexSortCount := c, inIndexArray := a\<rparr>
     \<and> (a = None) = (inIndexArray s = None)"
proof -
  let ?s1 = "s\<lparr>nodesWithIndexes := map (visited g fr s) (nodesWithIndexes s),
       vertexRenderCount := snd (cull_loop g fr s (nodesWithIndexes s) ([], 0)),
       vertexSortCount := 0\<rparr>"
  have eq: "snd (gatherSceneNodes g fr s) = snd (pack_loop (nodeRenderList g fr s) 0 ?s1)"
    by (simp add: gatherSceneNodes_def Let_def)
  from pack_loop_changes [of "nodeRenderList g fr s" 0 ?s1]
  obtain c a where ca: "snd (pack_loop (nodeRenderList g fr s) 0 ?s1) =
      ?s1\<lparr>vertexSortCount := c, inIndexArray := a\<rparr>" "(a = None) = (inIndexArray s = None)"
    by auto
  have "snd (gatherSceneNodes g fr s) =
       s\<lparr>nodesWithIndexes := map (visited g fr s) (nodesWithIndexes s),
         vertexRenderCount := snd (cull_loop g fr s (nodesWithIndexes s) ([], 0)),
         vertexSortCount := c, inIndexArray := a\<rparr>
     \<and> (a = None) = (inIndexArray s = None)"
    by (simp add: eq ca)
  then show ?thesis by (intro exI)
qed

lemma culled_sortViewDir: "culled g fr (s\<lparr>sortViewDir := v\<rparr>) n = culled g fr s n"
  by (simp add: culled_def outOfFovX_def outOfFovY_def cosFovXOver2_def cosFovYOver2_def)

lemma nodeRenderList_sortViewDir:
  "nodeRenderList g fr (s\<lparr>sortViewDir := v\<rparr>) = nodeRenderList g fr s"
  by (simp add: nodeRenderList_def cull_loop_eq culled_sortViewDir)

lemma candidates_fit_scene:
  "length (concat (map indexes (nodeRenderList g fr s)))
   \<le> length (concat (map indexes (nodesWithIndexes s)))"
proof -
  have "length (concat (map f (filter P xs))) \<le> length (concat (map f xs))" for f :: "octree_node \<Rightarrow> uint32 list" and P xs
    by (induction xs) simp_all
  then show ?thesis by (simp only: length_packed [symmetric])
qed

lemma updateView_in_flight_forced:
  "sortRunning s \<Longrightarrow> updateView True g fr s = (None, s)"
  by (simp add: updateView_def Let_def)

lemma updateView_in_flight:
  "sortRunning s \<Longrightarrow> updateView False g fr s =
     (None, s\<lparr>sortViewDir := v_applyQuaternion (Vector3 0 0 (- 1)) (quaternion (cam fr))\<rparr>)"
  by (simp add: updateView_def Let_def)

lemma updateView_gate_closed:
  assumes "\<not> v_dot (v_applyQuaternion (Vector3 0 0 (- 1)) (quaternion (cam fr))) (lastSortViewDir s) \<le> 0.95"
    and "\<not> v_length (v_sub (position (cam fr)) (lastSortViewPos s)) \<ge> 1"
  shows "updateView False g fr s =
     (None, s\<lparr>sortViewDir := v_applyQuaternion (Vector3 0 0 (- 1)) (quaternion (cam fr))\<rparr>)"
  using assms by (simp add: updateView_def Let_def)

lemma updateView_submits:
  assumes idle: "\<not> sortRunning s"
    and arr: "inIndexArray s = Some arr"
    and fits: "length (concat (map indexes (nodesWithIndexes s))) \<le> length (buffer arr)"
    and gate: "force \<or> v_dot (v_applyQuaternion (Vector3 0 0 (- 1)) (quaternion (cam fr))) (lastSortViewDir s) \<le> 0.95
       \<or> v_length (v_sub (position (cam fr)) (lastSortViewPos s)) \<ge> 1"
  shows "fst (updateView force g fr s) = None
    \<and> sortRunning (snd (updateView force g fr s))
    \<and> (\<exists>job. posted (snd (updateView force g fr s)) = posted s @ [Sort job])
    \<and> lastSortViewPos (snd (updateView force g fr s)) = position (cam fr)
    \<and> lastSortViewDir (snd (updateView force g fr s)) =
        (if force then sortViewDir s
         else v_applyQuaternion (Vector3 0 0 (- 1)) (quaternion (cam fr)))"
proof -
  let ?fwd = "v_applyQuaternion (Vector3 0 0 (- 1)) (quaternion (cam fr))"
  let ?s1 = "if \<not> force then s\<lparr>sortViewDir := ?fwd\<rparr> else s"
  have l1: "nodeRenderList g fr ?s1 = nodeRenderList g fr s"
    by (simp add: nodeRenderList_sortViewDir)
  have a1: "inIndexArray ?s1 = Some arr" using arr by simp
  have "length (concat (map indexes (nodeRenderList g fr ?s1))) \<le> length (buffer arr)"
    unfolding l1 using candidates_fit_scene [of g fr s] fits by linarith
  from gatherSceneNodes_ok [OF a1 this]
  obtain s2 where g: "gatherSceneNodes g fr ?s1 = (None, s2)"
    and s2: "sortRunning s2 = sortRunning ?s1" "posted s2 = posted ?s1"
       "sortViewDir s2 = sortViewDir ?s1" "inIndexArray s2 \<noteq> None"
    by simp
  from s2(4) obtain arr2 where arr2: "inIndexArray s2 = Some arr2" by auto
  show ?thesis
    using idle gate g s2(1-3) arr2
    by (cases force) (auto simp: updateView_def Let_def)
qed

lemma updateView_snapshot_kept:
  assumes "inIndexArray s \<noteq> None"
    and "posted (snd (updateView force g fr s)) = posted s"
  shows "lastSortViewDir (snd (updateView force g fr s)) = lastSortViewDir s
       \<and> lastSortViewPos (snd (updateView force g fr s)) = lastSortViewPos s"
proof -
  let ?fwd = "v_applyQuaternion (Vector3 0 0 (- 1)) (quaternion (cam fr))"
  let ?s1 = "if \<not> force then s\<lparr>sortViewDir := ?fwd\<rparr> else s"
  obtain r2 s2 where g: "gatherSceneNodes g fr ?s1 = (r2, s2)"
    by (cases "gatherSceneNodes g fr ?s1")
  from gatherSceneNodes_changes [of g fr ?s1] g assms(1)
  have s2: "lastSortViewDir s2 = lastSortViewDir s" "lastSortViewPos s2 = lastSortViewPos s"
    "posted s2 = posted s" "inIndexArray s2 \<noteq> None"
    by (auto split: if_splits)
  from s2(4) obtain arr2 where arr2: "inIndexArray s2 = Some arr2" by auto
  show ?thesis
    using g s2(1-3) arr2 assms(2)
    by (cases force; cases r2) (auto simp: updateView_def Let_def split: if_splits)
qed

lemma updateSplatMeshIndexes_keeps:
  "sortRunning (snd (updateSplatMeshIndexes ix n s)) = sortRunning s
   \<and> posted (snd (updateSplatMeshIndexes ix n s)) = posted s
   \<and> inIndexArray (snd (updateSplatMeshIndexes ix n s)) = inIndexArray s"
  by (simp add: updateSplatMeshIndexes_def split: option.split)

lemma setupPhase1_keeps:
  "sortRunning (snd (setupPhase1 e s)) = sortRunning s
   \<and> posted (snd (setupPhase1 e s)) = posted s @ [Positions (splatPositions s)]"
  by (simp add: setupPhase1_def Let_def split: sum.split)

lemma updateView_all_outcomes:
  "(sortRunning (snd (updateView force g fr s)) = sortRunning s
          \<and> posted (snd (updateView force g fr s)) = posted s)
       \<or> (\<not> sortRunning s \<and> sortRunning (snd (updateView force g fr s))
          \<and> fst (updateView force g fr s) = None
          \<and> (\<exists>job. posted (snd (updateView force g fr s)) = posted s @ [Sort job]))
       \<or> (\<not> sortRunning s \<and> sortRunning (snd (updateView force g fr s))
          \<and> fst (updateView force g fr s) = Some TypeError
          \<and> inIndexArray s = None
          \<and> posted (snd (updateView force g fr s)) = posted s)"
proof -
  let ?fwd = "v_applyQuaternion (Vector3 0 0 (- 1)) (quaternion (cam fr))"
  let ?s1 = "if \<not> force then s\<lparr>sortViewDir := ?fwd\<rparr> else s"
  obtain r2 s2 where g: "gatherSceneNodes g fr ?s1 = (r2, s2)"
    by (cases "gatherSceneNodes g fr ?s1")
  from gatherSceneNodes_changes [of g fr ?s1] g
  have s2: "sortRunning s2 = sortRunning s" "posted s2 = posted s"
    "(inIndexArray s2 = None) = (inIndexArray s = None)"
    by (auto split: if_splits)
  show ?thesis
  proof (cases "inIndexArray s2")
    case None
    with s2(3) have "inIndexArray s = None" by simp
    with g s2(1,2) None show ?thesis
      by (cases force; cases r2) (auto simp: updateView_def Let_def)
  next
    case (Some arr2)
    with g s2(1,2) show ?thesis
      by (cases force; cases r2) (auto simp: updateView_def Let_def)
  qed
qed

lemma setupComplete_all_outcomes:
  "(sortRunning (snd (setupComplete fr s)) = sortRunning s
          \<and> posted (snd (setupComplete fr s)) = posted s)
       \<or> (\<not> sortRunning s \<and> sortRunning (snd (setupComplete fr s))
          \<and> fst (setupComplete fr s) = None
          \<and> (\<exists>job. posted (snd (setupComplete fr s)) = posted s @ [Sort job]))
       \<or> (\<not> sortRunning s \<and> sortRunning (snd (setupComplete fr s))
          \<and> fst (setupComplete fr s) = Some TypeError
          \<and> inIndexArray s = None
          \<and> posted (snd (setupComplete fr s)) = posted s)"
proof -
  obtain r1 s1 where u: "updateSplatMeshIndexes (outIndexArray s) (vertexCount s) s = (r1, s1)"
    by (cases "updateSplatMeshIndexes (outIndexArray s) (vertexCount s) s")
  from updateSplatMeshIndexes_keeps [of "outIndexArray s" "vertexCount s" s] u
  have k1: "sortRunning s1 = sortRunning s" "posted s1 = posted s" "inIndexArray s1 = inIndexArray s"
    by simp_all
  let ?s1' = "updateSplatMeshAttributes (vertexCount s1) s1"
  have k1': "sortRunning ?s1' = sortRunning s" "posted ?s1' = posted s"
    "inIndexArray ?s1' = inIndexArray s"
    using k1 by (simp_all add: updateSplatMeshAttributes_def)
  obtain r2 s2 where v: "updateView True True fr ?s1' = (r2, s2)"
    by (cases "updateView True True fr ?s1'")
  from updateView_all_outcomes [of True True fr ?s1'] v k1'
  have o: "(sortRunning s2 = sortRunning s \<and> posted s2 = posted s)
       \<or> (\<not> sortRunning s \<and> sortRunning s2 \<and> r2 = None
           \<and> (\<exists>job. posted s2 = posted s @ [Sort job]))
       \<or> (\<not> sortRunning s \<and> sortRunning s2 \<and> r2 = Some TypeError
           \<and> inIndexArray s = None \<and> posted s2 = posted s)"
    by auto
  show ?thesis
  proof (cases r1)
    case (Some err)
    with u k1 show ?thesis by (simp add: setupComplete_def)
  next
    case None
    with u v o show ?thesis by (cases r2) (auto simp: setupComplete_def)
  qed
qed

text \<open>
  A camera turned by the angle \<open>2a\<close> about the y axis: the dot product of its forward
  vector with \<open>(0, 0, -1)\<close> is the cosine of the angle.
\<close>

lemma forward_dot_after_yaw:
  "v_dot (v_applyQuaternion (Vector3 0 0 (- 1)) (Quaternion 0 (sin a) 0 (cos a))) (Vector3 0 0 (- 1))
   = cos (2 * a)"
  by (simp add: v_applyQuaternion_def v_dot_def Let_def cos_double power2_eq_square)

lemma ex_idle: "\<not> sortRunning ex_viewer"
  by (simp add: ex_viewer_def)

lemma ex_scene_fits:
  "length (concat (map indexes (nodesWithIndexes ex_viewer)))
   \<le> length (buffer \<lparr>buffer = [0, 1, 2, 3, 4, 5], byteOffset = 0, view_length = 6\<rparr>)"
  by (simp add: ex_nodes ex_indexes)

lemma ex_snapshot:
  "lastSortViewDir ex_viewer = Vector3 0 0 (- 1)" "lastSortViewPos ex_viewer = Vector3 0 0 0"
  "sortViewDir ex_viewer = Vector3 0 0 (- 1)" "posted ex_viewer = []"
  by (simp_all add: ex_viewer_def)

lemma ex_forward:
  "v_applyQuaternion (Vector3 0 0 (- 1)) (quaternion (cam ex_frame)) = Vector3 0 0 (- 1)"
  "v_applyQuaternion (Vector3 0 0 (- 1)) (quaternion (cam frame_moved)) = Vector3 0 0 (- 1)"
  "v_applyQuaternion (Vector3 0 0 (- 1)) (quaternion (cam frame_turned)) = Vector3 0 0 1"
  by (simp_all add: v_applyQuaternion_def ex_frame_def frame_moved_def frame_turned_def
      ex_camera_def Let_def)

lemma ex_offsets:
  "v_length (v_sub (position (cam ex_frame)) (Vector3 0 0 0)) = 0"
  "v_length (v_sub (position (cam frame_moved)) (Vector3 0 0 0)) = 1"
  by (simp_all add: v_length_def v_sub_def ex_frame_def frame_moved_def ex_camera_def)

lemma turned_cos:
  "cosFovXOver2 frame_turned ex_unready = 4 / 5" "cosFovYOver2 frame_turned ex_unready = 4 / 5"
  by (simp_all add: cosFovXOver2_def cosFovYOver2_def frame_turned_def ex_frame_def
      ex_unready_def ex_viewer_def cos_arctan power2_eq_square sqrt_vals)

lemma turned_dist:
  "nodeDistance frame_turned node_far = 200" "nodeDistance frame_turned node_near = 10"
  "nodeDistance frame_turned node_above = 25"
  by (simp_all add: nodeDistance_def frame_turned_def ex_frame_def ex_camera_def node_far_def
      node_near_def node_above_def v_sub_def v_length_def sqrt_vals)

lemma turned_dir:
  "nodeDirection frame_turned node_far = Vector3 0 0 1"
  "nodeDirection frame_turned node_near = Vector3 0 0 1"
  "nodeDirection frame_turned node_above = Vector3 0 (24 / 25) (7 / 25)"
  by (simp_all add: nodeDirection_def frame_turned_def ex_frame_def ex_camera_def node_far_def
      node_near_def node_above_def v_sub_def v_length_def v_normalize_def v_divideScalar_def
      v_multiplyScalar_def v_transformDirection_def sqrt_vals)

lemma turned_dots:
  "cameraAngleXZDot frame_turned node_far = - 1" "cameraAngleXZDot frame_turned node_near = - 1"
  "cameraAngleXZDot frame_turned node_above = - 1"
  by (simp_all add: cameraAngleXZDot_def turned_dir forward_def v_dot_def
      v_setY_def v_length_def v_normalize_def v_divideScalar_def
      v_multiplyScalar_def sqrt_vals)

lemma turned_culled:
  "culled False frame_turned ex_unready node_far" "culled False frame_turned ex_unready node_near"
  "culled False frame_turned ex_unready node_above"
  by (simp_all add: culled_def outOfFovX_def turned_dots turned_cos turned_dist ex_size)

lemma unready_nodes: "nodesWithIndexes ex_unready = [node_far, node_near, node_above]"
  by (simp add: ex_unready_def ex_viewer_def)

lemma unready_fields:
  "\<not> sortRunning ex_unready" "inIndexArray ex_unready = None" "posted ex_unready = []"
  "lastSortViewDir ex_unready = Vector3 0 0 (- 1)" "lastSortViewPos ex_unready = Vector3 0 0 0"
  by (simp_all add: ex_unready_def ex_viewer_def)

lemma unready_render_list: "nodeRenderList False frame_turned ex_unready = []"
  by (simp add: nodeRenderList_def cull_loop_eq unready_nodes turned_culled array_sort_def)

lemma unready_gather:
  "gatherSceneNodes False frame_turned (ex_unready\<lparr>sortViewDir := Vector3 0 0 1\<rparr>) =
     (None, ex_unready\<lparr>sortViewDir := Vector3 0 0 1,
                      vertexRenderCount := 0, vertexSortCount := 0\<rparr>)"
proof -
  have c: "culled False frame_turned (ex_unready\<lparr>sortViewDir := Vector3 0 0 1\<rparr>) n
         = culled False frame_turned ex_unready n" for n
    by (rule culled_sortViewDir)
  have v: "visited False frame_turned (ex_unready\<lparr>sortViewDir := Vector3 0 0 1\<rparr>) n
         = (if culled False frame_turned ex_unready n then n else stamped frame_turned n)" for n
    by (simp add: visited_def c)
  show ?thesis
    by (simp add: gatherSceneNodes_def Let_def nodeRenderList_sortViewDir unready_render_list
        cull_loop_eq c v unready_nodes turned_culled)
qed

lemma pack_loop_unallocated:
  assumes "inIndexArray s = None" and "ns \<noteq> []"
  shows "fst (pack_loop ns off s) = Some TypeError
       \<and> sortRunning (snd (pack_loop ns off s)) = sortRunning s"
proof (cases ns)
  case Nil
  with assms(2) show ?thesis by simp
next
  case (Cons node rest)
  with assms(1) show ?thesis by (simp add: pack_node_def Let_def)
qed

lemma updateView_unallocated_with_candidates:
  assumes "inIndexArray s = None" and "nodeRenderList g fr s \<noteq> []"
  shows "sortRunning (snd (updateView force g fr s)) = sortRunning s
       \<and> posted (snd (updateView force g fr s)) = posted s"
proof -
  let ?fwd = "v_applyQuaternion (Vector3 0 0 (- 1)) (quaternion (cam fr))"
  let ?s1 = "if \<not> force then s\<lparr>sortViewDir := ?fwd\<rparr> else s"
  have l: "nodeRenderList g fr ?s1 \<noteq> []"
    using assms(2) by (simp add: nodeRenderList_sortViewDir)
  let ?s1' = "?s1\<lparr>nodesWithIndexes := map (visited g fr ?s1) (nodesWithIndexes ?s1),
       vertexRenderCount := snd (cull_loop g fr ?s1 (nodesWithIndexes ?s1) ([], 0)),
       vertexSortCount := 0\<rparr>"
  have n: "inIndexArray ?s1' = None" using assms(1) by simp
  have eq: "gatherSceneNodes g fr ?s1 = pack_loop (nodeRenderList g fr ?s1) 0 ?s1'"
    by (simp add: gatherSceneNodes_def Let_def)
  from pack_loop_unallocated [OF n l, of 0]
  have r: "fst (gatherSceneNodes g fr ?s1) = Some TypeError"
    by (simp only: eq)
  obtain r2 s2 where g: "gatherSceneNodes g fr ?s1 = (r2, s2)"
    by (cases "gatherSceneNodes g fr ?s1")
  with r have r2: "r2 = Some TypeError" by simp
  from gatherSceneNodes_changes [of g fr ?s1] g
  have s2: "sortRunning s2 = sortRunning s" "posted s2 = posted s"
    by (auto split: if_splits)
  show ?thesis
    using g r2 s2 by (cases force) (auto simp: updateView_def Let_def)
qed

subsection \<open>The visibility culler\<close>

text \<open>
  C1, in the form that holds. With \<open>gatherAllNodes\<close> false, a leaf of the octree is left out of the
  Candidate List exactly when it fails at least one of the two planar angle tests (its
  planar cosine is below \<open>cos(halfFOV) - 0.4\<close> on the horizontal or on the vertical axis)
  and its distance to the camera exceeds its size \<open>\<parallel>max - min\<parallel>\<close>. So a leaf that passes
  both angle tests is never left out, nor is a leaf within its own size of the camera;
  with \<open>gatherAllNodes\<close> true nothing is left out.
\<close>

theorem culler_excludes_iff:
  assumes "node \<in> set (nodesWithIndexes s)"
  shows "(stamped fr node \<notin> set (nodeRenderList gatherAllNodes fr s)) =
         (\<not> gatherAllNodes \<and> (outOfFovX fr s node \<or> outOfFovY fr s node)
          \<and> nodeDistance fr node > nodeSize node)"
  using excluded_iff_culled [OF assms] by (simp add: culled_def)

text \<open>
  In the small scene the leaf above the axis is left out by a culling pass and kept by
  a pass with \<open>gatherAllNodes\<close>.
\<close>

theorem culler_excludes_iff_witness:
  "node_above \<in> set (nodesWithIndexes ex_viewer)
   \<and> stamped ex_frame node_above \<notin> set (nodeRenderList False ex_frame ex_viewer)
   \<and> stamped ex_frame node_above \<in> set (nodeRenderList True ex_frame ex_viewer)"
  using culler_excludes_iff [OF ex_above_in, of ex_frame False]
    culler_excludes_iff [OF ex_above_in, of ex_frame True]
  by (simp add: ex_above_in ex_above_tests)

text \<open>
  C1 with "both" does not hold: the leaf above the axis passes the horizontal test (its
  horizontal cosine is 1, the bound is 4/5 - 0.4), fails only the vertical one, lies 25
  units away with size 3, and is left out of the Candidate List.
\<close>

theorem culler_both_axes_counterexample:
  "node_above \<in> set (nodesWithIndexes ex_viewer)
   \<and> cameraAngleXZDot ex_frame node_above = 1
   \<and> cosFovXOver2 ex_frame ex_viewer = 4 / 5
   \<and> \<not> outOfFovX ex_frame ex_viewer node_above
   \<and> stamped ex_frame node_above \<notin> set (nodeRenderList False ex_frame ex_viewer)"
  using excluded_iff_culled [OF ex_above_in, of ex_frame False]
  by (simp add: ex_above_in ex_above_tests ex_culled ex_dots ex_cos)

subsection \<open>The node orderer and the packed index buffer\<close>

text \<open>
  C6. After a pass of \<^verbatim>\<open>gatherSceneNodes\<close> the Candidate List \<^verbatim>\<open>nodeRenderList\<close> is
  sorted non-decreasing in \<open>distanceToNode\<close>; it holds the kept leaves, each with the
  distance of this pass, in some order. Nothing is promised about leaves at equal
  distance (the sort modelled here puts the later one first, see
  \<open>array_sort_ties_reversed\<close>).
\<close>

theorem candidate_list_sorted:
  "sorted (map distanceToNode (nodeRenderList gatherAllNodes fr s))
   \<and> mset (nodeRenderList gatherAllNodes fr s) =
     mset (map (stamped fr) (filter (\<lambda>n. \<not> culled gatherAllNodes fr s n) (nodesWithIndexes s)))"
  by (simp add: sorted_nodeRenderList mset_nodeRenderList)

text \<open>In the small scene the Candidate List of a culling pass has the distances 10, 200.\<close>

theorem candidate_list_sorted_witness:
  "map distanceToNode (nodeRenderList False ex_frame ex_viewer) = [10, 200]
   \<and> sorted (map distanceToNode (nodeRenderList False ex_frame ex_viewer))"
  using candidate_list_sorted [of False ex_frame ex_viewer]
  by (simp add: ex_render_list distance_stamped ex_dist)

text \<open>
  C3. Given an allocated \<^verbatim>\<open>inIndexArray\<close>, a pass of \<^verbatim>\<open>gatherSceneNodes\<close> returns
  without raising exactly when the indices of the Candidate List fit into its buffer.
  After such a pass the first \<open>vertexRenderCount\<close> entries of the buffer are the
  concatenation of the \<open>indexes\<close> arrays of the Candidate List in its sorted order, and
  \<open>vertexRenderCount\<close> is their number; these are, with multiplicity, the indices of
  the kept leaves, so each index appears once when the leaves of the octree share none.
\<close>

theorem packed_in_bucket_order:
  assumes "inIndexArray s = Some arr"
  shows "(fst (gatherSceneNodes g fr s) = None) =
           (length (concat (map indexes (nodeRenderList g fr s))) \<le> length (buffer arr))
   \<and> (fst (gatherSceneNodes g fr s) = None \<longrightarrow>
        vertexRenderCount (snd (gatherSceneNodes g fr s)) =
          length (concat (map indexes (nodeRenderList g fr s)))
      \<and> map_option (\<lambda>a. take (vertexRenderCount (snd (gatherSceneNodes g fr s))) (buffer a))
           (inIndexArray (snd (gatherSceneNodes g fr s))) =
          Some (concat (map indexes (nodeRenderList g fr s))))
   \<and> mset (concat (map indexes (nodeRenderList g fr s))) =
       mset (concat (map indexes (filter (\<lambda>n. \<not> culled g fr s n) (nodesWithIndexes s))))
   \<and> (distinct (concat (map indexes (nodesWithIndexes s))) \<longrightarrow>
        distinct (concat (map indexes (nodeRenderList g fr s))))"
proof -
  have ret: "(fst (gatherSceneNodes g fr s) = None) =
           (length (concat (map indexes (nodeRenderList g fr s))) \<le> length (buffer arr))"
    using assms by (rule gatherSceneNodes_returns_iff)
  have post: "vertexRenderCount (snd (gatherSceneNodes g fr s)) =
          length (concat (map indexes (nodeRenderList g fr s)))
      \<and> map_option (\<lambda>a. take (vertexRenderCount (snd (gatherSceneNodes g fr s))) (buffer a))
           (inIndexArray (snd (gatherSceneNodes g fr s))) =
          Some (concat (map indexes (nodeRenderList g fr s)))"
    if "fst (gatherSceneNodes g fr s) = None"
  proof -
    from that ret have fit: "length (concat (map indexes (nodeRenderList g fr s))) \<le> length (buffer arr)"
      by simp
    show ?thesis by (simp add: gatherSceneNodes_ok [OF assms fit])
  qed
  from ret post mset_packed [of g fr s] distinct_packed [of s g fr] show ?thesis by blast
qed

text \<open>
  In the small scene a culling pass packs the near leaf, then the far one: 2, 3, 4, 0, 1.
\<close>

theorem packed_in_bucket_order_witness:
  "inIndexArray ex_viewer = Some \<lparr>buffer = [0, 1, 2, 3, 4, 5], byteOffset = 0, view_length = 6\<rparr>
   \<and> fst (gatherSceneNodes False ex_frame ex_viewer) = None
   \<and> vertexRenderCount (snd (gatherSceneNodes False ex_frame ex_viewer)) = 5
   \<and> map_option (\<lambda>a. take (vertexRenderCount (snd (gatherSceneNodes False ex_frame ex_viewer)))
                          (buffer a))
       (inIndexArray (snd (gatherSceneNodes False ex_frame ex_viewer))) = Some [2, 3, 4, 0, 1]"
  using packed_in_bucket_order [OF ex_in, of False ex_frame] ex_gather_returns
  by (auto simp add: ex_in ex_render_list indexes_stamped ex_indexes)

text \<open>
  C4. After a pass of \<^verbatim>\<open>gatherSceneNodes\<close> that returns, the candidates with
  \<open>distanceToNode \<le> 125\<close> are a prefix of the Candidate List, \<open>vertexSortCount\<close> is the
  number of indices owned by that prefix, and the first \<open>vertexSortCount\<close> entries of
  the buffer are the indices of that prefix, in order.
\<close>

theorem fine_sort_prefix:
  assumes "inIndexArray s = Some arr" and "fst (gatherSceneNodes g fr s) = None"
  shows "filter (\<lambda>n. distanceToNode n \<le> 125) (nodeRenderList g fr s) =
         takeWhile (\<lambda>n. distanceToNode n \<le> 125) (nodeRenderList g fr s)
   \<and> vertexSortCount (snd (gatherSceneNodes g fr s)) =
       length (concat (map indexes (takeWhile (\<lambda>n. distanceToNode n \<le> 125) (nodeRenderList g fr s))))
   \<and> map_option (\<lambda>a. take (vertexSortCount (snd (gatherSceneNodes g fr s))) (buffer a))
        (inIndexArray (snd (gatherSceneNodes g fr s))) =
       Some (concat (map indexes (takeWhile (\<lambda>n. distanceToNode n \<le> 125) (nodeRenderList g fr s))))"
proof -
  let ?L = "nodeRenderList g fr s"
  let ?near = "takeWhile (\<lambda>n. distanceToNode n \<le> 125) ?L"
  let ?far = "dropWhile (\<lambda>n. distanceToNode n \<le> 125) ?L"
  have pre: "filter (\<lambda>n. distanceToNode n \<le> 125) ?L = ?near"
    using sorted_nodeRenderList [of g fr s] by (rule filter_takeWhile_sorted)
  have fit: "length (concat (map indexes ?L)) \<le> length (buffer arr)"
    using gatherSceneNodes_fits [OF assms] .
  have cnt: "fineSortCount ?L = length (concat (map indexes ?near))"
    by (simp only: fineSortCount_def MaximumDistanceToSort_def pre)
  have split: "concat (map indexes ?L) = concat (map indexes ?near) @ concat (map indexes ?far)"
    by (metis concat_append map_append takeWhile_dropWhile_id)
  have tk: "take (length (concat (map indexes ?near)))
              (concat (map indexes ?L) @ drop (length (concat (map indexes ?L))) (buffer arr))
            = concat (map indexes ?near)"
    using split by (rule take_prefix)
  have vs: "vertexSortCount (snd (gatherSceneNodes g fr s)) = length (concat (map indexes ?near))"
    by (simp add: gatherSceneNodes_ok [OF assms(1) fit] cnt)
  have buf: "map_option buffer (inIndexArray (snd (gatherSceneNodes g fr s))) =
      Some (concat (map indexes ?L) @ drop (length (concat (map indexes ?L))) (buffer arr))"
    by (simp add: gatherSceneNodes_ok [OF assms(1) fit])
  have "map_option (\<lambda>a. take (length (concat (map indexes ?near))) (buffer a))
          (inIndexArray (snd (gatherSceneNodes g fr s))) =
        map_option (take (length (concat (map indexes ?near))))
          (map_option buffer (inIndexArray (snd (gatherSceneNodes g fr s))))"
    by (simp add: option.map_comp comp_def)
  also have "\<dots> = Some (concat (map indexes ?near))"
    by (simp only: buf option.map tk)
  finally show ?thesis
    by (simp only: pre vs)
qed

text \<open>In the small scene the prefix is the near leaf, with its three indices.\<close>

theorem fine_sort_prefix_witness:
  "inIndexArray ex_viewer = Some \<lparr>buffer = [0, 1, 2, 3, 4, 5], byteOffset = 0, view_length = 6\<rparr>
   \<and> fst (gatherSceneNodes False ex_frame ex_viewer) = None
   \<and> takeWhile (\<lambda>n. distanceToNode n \<le> 125) (nodeRenderList False ex_frame ex_viewer)
       = [stamped ex_frame node_near]
   \<and> vertexSortCount (snd (gatherSceneNodes False ex_frame ex_viewer)) = 3
   \<and> map_option (\<lambda>a. take (vertexSortCount (snd (gatherSceneNodes False ex_frame ex_viewer)))
                          (buffer a))
       (inIndexArray (snd (gatherSceneNodes False ex_frame ex_viewer))) = Some [2, 3, 4]"
  using fine_sort_prefix [OF ex_in ex_gather_returns]
  by (auto simp add: ex_in ex_gather_returns ex_render_list indexes_stamped ex_indexes
      distance_stamped ex_dist)

subsection \<open>The view change detector\<close>

text \<open>
  C5. Take an idle viewer whose index buffer is allocated and holds the indices of the
  whole octree. A call of \<^verbatim>\<open>updateView\<close> with \<open>force\<close> false submits a sort job (and
  sets \<open>sortRunning\<close>) if and only if the dot product of the camera's forward vector
  with the recorded \<open>lastSortViewDir\<close> is at most 0.95 or the camera is at least 1.0
  away from the recorded \<open>lastSortViewPos\<close>, both bounds included; a call with \<open>force\<close>
  true submits in any case.
\<close>

theorem view_change_detector:
  assumes "\<not> sortRunning s" and "inIndexArray s = Some arr"
    and "length (concat (map indexes (nodesWithIndexes s))) \<le> length (buffer arr)"
  shows "sortRunning (snd (updateView False g fr s)) =
           (v_dot (v_applyQuaternion (Vector3 0 0 (- 1)) (quaternion (cam fr))) (lastSortViewDir s) \<le> 0.95
            \<or> v_length (v_sub (position (cam fr)) (lastSortViewPos s)) \<ge> 1)
       \<and> (\<exists>job. posted (snd (updateView False g fr s)) = posted s @ [Sort job]) =
           (v_dot (v_applyQuaternion (Vector3 0 0 (- 1)) (quaternion (cam fr))) (lastSortViewDir s) \<le> 0.95
            \<or> v_length (v_sub (position (cam fr)) (lastSortViewPos s)) \<ge> 1)
       \<and> sortRunning (snd (updateView True g fr s))
       \<and> (\<exists>job. posted (snd (updateView True g fr s)) = posted s @ [Sort job])"
proof -
  let ?gate = "v_dot (v_applyQuaternion (Vector3 0 0 (- 1)) (quaternion (cam fr))) (lastSortViewDir s) \<le> 0.95
            \<or> v_length (v_sub (position (cam fr)) (lastSortViewPos s)) \<ge> 1"
  have forced: "sortRunning (snd (updateView True g fr s))
       \<and> (\<exists>job. posted (snd (updateView True g fr s)) = posted s @ [Sort job])"
    using updateView_submits [OF assms, of True fr g] by simp
  have opened: "sortRunning (snd (updateView False g fr s))
       \<and> (\<exists>job. posted (snd (updateView False g fr s)) = posted s @ [Sort job])" if ?gate
    using updateView_submits [OF assms, of False fr g] that by simp
  have closed: "\<not> sortRunning (snd (updateView False g fr s))
       \<and> \<not> (\<exists>job. posted (snd (updateView False g fr s)) = posted s @ [Sort job])" if "\<not> ?gate"
    using that assms(1) by (simp add: updateView_gate_closed)
  from forced opened closed show ?thesis by blast
qed

text \<open>
  In the small scene: a camera that has not turned and has moved by exactly 1.0 gets a
  job, a camera that has not moved gets none unless the call is forced.
\<close>

theorem view_change_detector_witness:
  "\<not> sortRunning ex_viewer
   \<and> v_dot (v_applyQuaternion (Vector3 0 0 (- 1)) (quaternion (cam frame_moved)))
        (lastSortViewDir ex_viewer) = 1
   \<and> v_length (v_sub (position (cam frame_moved)) (lastSortViewPos ex_viewer)) = 1
   \<and> sortRunning (snd (updateView False False frame_moved ex_viewer))
   \<and> \<not> sortRunning (snd (updateView False False ex_frame ex_viewer))
   \<and> sortRunning (snd (updateView True False ex_frame ex_viewer))"
  using view_change_detector [OF ex_idle ex_in ex_scene_fits, of False frame_moved]
    view_change_detector [OF ex_idle ex_in ex_scene_fits, of False ex_frame]
  by (simp add: ex_idle ex_forward ex_offsets ex_snapshot v_dot_def)

subsection \<open>The sort scheduler\<close>

text \<open>
  What holds of the job state \<open>sortRunning\<close> in every step, a call of \<^verbatim>\<open>updateView\<close>
  or a message of the worker, whether it raises or not. A step posts a sort job only
  from Idle, and is then InFlight; a step that goes from Idle to InFlight has posted
  exactly one sort job, provided it returned without raising or the index buffer was
  allocated; the state goes from InFlight to Idle only on a message with \<open>sortDone\<close> or
  \<open>sortCanceled\<close>; and a call of \<^verbatim>\<open>updateView\<close> while InFlight returns without
  raising, stays InFlight, posts nothing and leaves \<open>inIndexArray\<close>, its window and its
  contents, as they were.
\<close>

lemma job_state_guarded:
  "((fst (step ev s) = None \<or> inIndexArray s \<noteq> None)
       \<and> \<not> sortRunning s \<and> sortRunning (snd (step ev s)) \<longrightarrow>
          (\<exists>job. posted (snd (step ev s)) = posted s @ [Sort job]))
   \<and> ((\<exists>job. posted (snd (step ev s)) = posted s @ [Sort job]) \<longrightarrow>
          \<not> sortRunning s \<and> sortRunning (snd (step ev s)))
   \<and> (sortRunning s \<and> \<not> sortRunning (snd (step ev s)) \<longrightarrow>
          (\<exists>e fr. ev = Message e fr \<and> (sortDone e \<or> sortCanceled e)))
   \<and> (sortRunning s \<and> (\<exists>force g fr. ev = CallUpdateView force g fr) \<longrightarrow>
          fst (step ev s) = None \<and> sortRunning (snd (step ev s))
          \<and> inIndexArray (snd (step ev s)) = inIndexArray s
          \<and> posted (snd (step ev s)) = posted s)"
proof (cases ev)
  case (CallUpdateView force g fr)
  have busy: "sortRunning s \<Longrightarrow> fst (updateView force g fr s) = None
      \<and> sortRunning (snd (updateView force g fr s))
      \<and> inIndexArray (snd (updateView force g fr s)) = inIndexArray s
      \<and> posted (snd (updateView force g fr s)) = posted s"
    by (cases force) (simp_all add: updateView_in_flight updateView_in_flight_forced)
  from updateView_all_outcomes [of force g fr s] busy CallUpdateView
  show ?thesis by auto
next
  case (Message e fr)
  consider (finished) "sortDone e" | (canceled) "\<not> sortDone e" "sortCanceled e"
    | (phase1) "\<not> sortDone e" "\<not> sortCanceled e" "sortSetupPhase1Complete e"
    | (complete) "\<not> sortDone e" "\<not> sortCanceled e" "\<not> sortSetupPhase1Complete e" "sortSetupComplete e"
    | (other) "\<not> sortDone e" "\<not> sortCanceled e" "\<not> sortSetupPhase1Complete e" "\<not> sortSetupComplete e"
    by blast
  then show ?thesis
  proof cases
    case finished
    with Message updateSplatMeshIndexes_keeps [of "outIndexArray s" "reply_vertexRenderCount e" "s\<lparr>sortRunning := False\<rparr>"]
    show ?thesis by (auto simp: onmessage_def)
  next
    case canceled
    with Message show ?thesis by (auto simp: onmessage_def)
  next
    case phase1
    with Message setupPhase1_keeps [of e s] show ?thesis by (auto simp: onmessage_def)
  next
    case complete
    with Message setupComplete_all_outcomes [of fr s] show ?thesis
      by (auto simp: onmessage_def)
  next
    case other
    with Message show ?thesis by (auto simp: onmessage_def)
  qed
qed

text \<open>
  In the small scene: a forced call on the idle viewer posts a job and sets the flag, a
  canceled reply clears it, and a call while a job is in flight changes neither the
  flag nor the buffer nor the posted messages, although the camera has moved.
\<close>

lemma job_state_guarded_example:
  "inIndexArray ex_viewer \<noteq> None
   \<and> \<not> sortRunning ex_viewer
   \<and> sortRunning (snd (step (CallUpdateView True True ex_frame) ex_viewer))
   \<and> (\<exists>job. posted (snd (step (CallUpdateView True True ex_frame) ex_viewer)) =
              posted ex_viewer @ [Sort job])
   \<and> sortRunning ex_busy
   \<and> \<not> sortRunning (snd (step (Message reply_canceled ex_frame) ex_busy))
   \<and> sortRunning (snd (step (CallUpdateView False False frame_moved) ex_busy))
   \<and> inIndexArray (snd (step (CallUpdateView False False frame_moved) ex_busy)) = inIndexArray ex_busy
   \<and> posted (snd (step (CallUpdateView False False frame_moved) ex_busy)) = posted ex_busy"
proof -
  have a: "inIndexArray ex_viewer \<noteq> None" "inIndexArray ex_busy \<noteq> None" "sortRunning ex_busy"
    by (simp_all add: ex_in ex_busy_def)
  have sub: "sortRunning (snd (step (CallUpdateView True True ex_frame) ex_viewer))"
    using updateView_submits [OF ex_idle ex_in ex_scene_fits, of True ex_frame True] by simp
  have can: "\<not> sortRunning (snd (step (Message reply_canceled ex_frame) ex_busy))"
    by (simp add: onmessage_def reply_canceled_def)
  from job_state_guarded [of "CallUpdateView True True ex_frame" ex_viewer]
    job_state_guarded [of "Message reply_canceled ex_frame" ex_busy]
    job_state_guarded [of "CallUpdateView False False frame_moved" ex_busy]
    a sub can ex_idle
  show ?thesis by auto
qed

text \<open>
  C2, evaluated where it fails. Before the worker's first reply \<open>inIndexArray\<close> is still
  unassigned. With the camera turned away from all three leaves of the small scene a
  culling pass keeps none of them, so the pass itself reads no buffer and returns; the
  call of \<^verbatim>\<open>updateView\<close> (not forced, the view has turned) then sets \<open>sortRunning\<close> on
  line 644 and raises a TypeError on line 651, while building the message, before
  anything is posted. The job state has gone from Idle to InFlight and no sort job was
  submitted. When a leaf is kept, the same unassigned array makes the pass raise before
  line 644 and the state stays Idle (\<open>updateView_unallocated_with_candidates\<close>).
\<close>

theorem idle_to_in_flight_without_job:
  "\<not> sortRunning ex_unready
   \<and> inIndexArray ex_unready = None
   \<and> nodeRenderList False frame_turned ex_unready = []
   \<and> fst (step (CallUpdateView False False frame_turned) ex_unready) = Some TypeError
   \<and> sortRunning (snd (step (CallUpdateView False False frame_turned) ex_unready))
   \<and> posted (snd (step (CallUpdateView False False frame_turned) ex_unready)) = posted ex_unready"
  by (simp add: unready_fields unready_render_list updateView_def Let_def ex_forward v_dot_def
      unready_gather)

text \<open>
  C10. A call of \<^verbatim>\<open>updateView\<close> with \<open>force\<close> true while a job is in flight returns
  without raising and leaves the whole viewer as it was: no job is posted, the index
  buffer and the camera snapshot are untouched, \<open>sortRunning\<close> stays true, and nothing
  records that a request was made.
\<close>

theorem forced_request_in_flight_dropped:
  assumes "sortRunning s"
  shows "updateView True gatherAllNodes fr s = (None, s)"
  using assms by (rule updateView_in_flight_forced)

theorem forced_request_in_flight_dropped_witness:
  "sortRunning ex_busy \<and> updateView True True frame_turned ex_busy = (None, ex_busy)"
proof -
  have b: "sortRunning ex_busy" by (simp add: ex_busy_def)
  from forced_request_in_flight_dropped [OF b, of True frame_turned] b show ?thesis by simp
qed

text \<open>
  C7, evaluated where it fails. On the idle small scene with the camera turned to look
  along the positive z axis, a forced call of \<^verbatim>\<open>updateView\<close> submits a job, and the
  snapshot \<open>lastSortViewDir\<close> it records is \<open>(0, 0, -1)\<close>, the value left in
  \<open>sortViewDir\<close> by the last call that was not forced, not the camera's forward vector
  \<open>(0, 0, 1)\<close>: \<open>sortViewDir\<close> is recomputed only under \<^verbatim>\<open>if (!force)\<close>.
\<close>

theorem forced_submit_records_stale_direction:
  "\<not> sortRunning ex_viewer
   \<and> sortRunning (snd (updateView True True frame_turned ex_viewer))
   \<and> (\<exists>job. posted (snd (updateView True True frame_turned ex_viewer)) = [Sort job])
   \<and> v_applyQuaternion (Vector3 0 0 (- 1)) (quaternion (cam frame_turned)) = Vector3 0 0 1
   \<and> lastSortViewDir (snd (updateView True True frame_turned ex_viewer)) = Vector3 0 0 (- 1)"
  using updateView_submits [OF ex_idle ex_in ex_scene_fits, of True frame_turned True]
  by (simp add: ex_idle ex_forward ex_snapshot)

subsection \<open>Cancellation and publishing\<close>

text \<open>
  C8. A reply with \<open>sortCanceled\<close> (and without \<open>sortDone\<close>) that arrives while a job is
  in flight returns the viewer to Idle and changes nothing else: the \<open>splatIndex\<close>
  attribute and the instance count keep the values of the last publish.
\<close>

theorem canceled_publishes_nothing:
  assumes "sortRunning s" and "\<not> sortDone e" and "sortCanceled e"
  shows "fst (onmessage e fr s) = None
       \<and> \<not> sortRunning (snd (onmessage e fr s))
       \<and> splatIndex (snd (onmessage e fr s)) = splatIndex s
       \<and> instanceCount (snd (onmessage e fr s)) = instanceCount s
       \<and> snd (onmessage e fr s) = s\<lparr>sortRunning := False\<rparr>"
  using assms by (simp add: onmessage_def)

theorem canceled_publishes_nothing_witness:
  "sortRunning ex_busy \<and> \<not> sortDone reply_canceled \<and> sortCanceled reply_canceled
   \<and> \<not> sortRunning (snd (onmessage reply_canceled ex_frame ex_busy))
   \<and> splatIndex (snd (onmessage reply_canceled ex_frame ex_busy)) = [0, 0, 0, 0, 0, 0]
   \<and> instanceCount (snd (onmessage reply_canceled ex_frame ex_busy)) = 6"
proof -
  have h: "sortRunning ex_busy" "\<not> sortDone reply_canceled" "sortCanceled reply_canceled"
    by (simp_all add: ex_busy_def reply_canceled_def)
  have v: "splatIndex ex_busy = [0, 0, 0, 0, 0, 0]" "instanceCount ex_busy = 6"
    by (simp_all add: ex_busy_def ex_viewer_def)
  from canceled_publishes_nothing [OF h, of ex_frame] h v show ?thesis by simp
qed

text \<open>
  C9. A reply with \<open>sortDone\<close> and render count \<open>N\<close>, on a viewer whose
  \<open>outIndexArray\<close> is allocated and no longer than the \<open>splatIndex\<close> attribute, copies
  \<open>outIndexArray\<close> into the attribute and sets the instance count to exactly \<open>N\<close>,
  whatever the splat count of the scene.
\<close>

theorem done_sets_instance_count:
  assumes "sortDone e" and "outIndexArray s = Some out"
    and "view_length out \<le> length (splatIndex s)"
  shows "fst (onmessage e fr s) = None
       \<and> instanceCount (snd (onmessage e fr s)) = reply_vertexRenderCount e
       \<and> splatIndex (snd (onmessage e fr s)) =
           view_elements out @ drop (view_length out) (splatIndex s)
       \<and> \<not> sortRunning (snd (onmessage e fr s))"
  using assms by (simp add: onmessage_def updateSplatMeshIndexes_def)

text \<open>In the small scene of six splats a reply with render count 3 sets the count to 3.\<close>

theorem done_sets_instance_count_witness:
  "sortDone reply_done
   \<and> outIndexArray ex_busy = Some \<lparr>buffer = [5, 4, 3, 2, 1, 0], byteOffset = 0, view_length = 6\<rparr>
   \<and> vertexCount ex_busy = 6
   \<and> reply_vertexRenderCount reply_done = 3
   \<and> instanceCount (snd (onmessage reply_done ex_frame ex_busy)) = 3
   \<and> splatIndex (snd (onmessage reply_done ex_frame ex_busy)) = [5, 4, 3, 2, 1, 0]"
proof -
  have h: "sortDone reply_done"
    "outIndexArray ex_busy = Some \<lparr>buffer = [5, 4, 3, 2, 1, 0], byteOffset = 0, view_length = 6\<rparr>"
    "view_length \<lparr>buffer = [5, 4, 3, 2, 1, 0], byteOffset = 0, view_length = 6\<rparr>
       \<le> length (splatIndex ex_busy)"
    by (simp_all add: ex_busy_def ex_viewer_def reply_done_def)
  have v: "vertexCount ex_busy = 6" "reply_vertexRenderCount reply_done = 3"
     "splatIndex ex_busy = [0, 0, 0, 0, 0, 0]"
    by (simp_all add: ex_busy_def ex_viewer_def reply_done_def)
  from done_sets_instance_count [OF h, of ex_frame] h(1,2) v show ?thesis
    by (simp add: view_elements_def)
qed

end
